theory Spec2Isabelle
  imports Main "HOL-Library.Word"
begin

unbundle bit_operations_syntax

section \<open>Events\<close>

text \<open>
  Modelled from the spec: the type \<open>event.Event\<close> (package \<open>event\<close> is imported by
  \<open>leash.go\<close> but is not part of the sources at hand). The spec gives an event a
  timestamp and a \<open>data\<close> mapping from string keys to dynamically typed values, and
  the test file builds events as
  \<^verbatim>\<open>event.Event{Timestamp: time.Date(...), Data: map[string]interface{}{...}}\<close>.
  The timestamp is an instant, taken as an integer. The mapping is an allocated Go map,
  as in every event of the test file; it is a partial function here.

  A value of the map is an \<open>interface{}\<close>. Strings, integers and booleans are spelled
  out; \<open>VOther\<close> stands for any other dynamic type (floats, nested maps), kept abstract
  in the type parameter.
\<close>

datatype 'x val = VString string | VInt int | VBool bool | VOther 'x

record 'x event =
  Timestamp :: int
  Data :: "string \<rightharpoonup> 'x val"

text \<open>
  What \<open>logrus.Fatal\<close> and a Go run-time panic do to the program: both end it, the
  first by \<open>os.Exit(1)\<close> after logging the message.
\<close>

datatype failure = Fatal string | Panic string

section \<open>Formatting and hashing (Go's standard library)\<close>

text \<open>
  \<open>fmt.Sprintf("%v", val)\<close>: a string is printed as it is, an integer in decimal, a
  boolean as \<open>true\<close> or \<open>false\<close>. The printing of the remaining dynamic types is the
  parameter \<open>fmt\<close>.
\<close>

definition digit_char :: "nat \<Rightarrow> char" where
  "digit_char n = ''0123456789abcdef'' ! n"

fun decimal :: "nat \<Rightarrow> string" where
  "decimal n = (if n < 10 then [digit_char n] else decimal (n div 10) @ [digit_char (n mod 10)])"

declare decimal.simps [simp del]

definition Sprintf_d :: "int \<Rightarrow> string" where
  "Sprintf_d i = (if i < 0 then CHR ''-'' # decimal (nat (- i)) else decimal (nat i))"

fun Sprintf_v :: "('x \<Rightarrow> string) \<Rightarrow> 'x val \<Rightarrow> string" where
  "Sprintf_v fmt (VString s) = s"
| "Sprintf_v fmt (VInt i) = Sprintf_d i"
| "Sprintf_v fmt (VBool b) = (if b then ''true'' else ''false'')"
| "Sprintf_v fmt (VOther x) = fmt x"

text \<open>
  \<open>sha256.Sum256\<close>, following FIPS 180-4. A 32-bit word is a natural number below
  \<open>2^32\<close> and every addition and rotation is reduced modulo \<open>2^32\<close>; a byte is a
  natural number below 256. The eight working variables are a tuple.
\<close>

type_synonym digest = "nat \<times> nat \<times> nat \<times> nat \<times> nat \<times> nat \<times> nat \<times> nat"

definition add32 :: "nat \<Rightarrow> nat \<Rightarrow> nat" where
  "add32 x y = (x + y) mod 4294967296"

definition rotr :: "nat \<Rightarrow> nat \<Rightarrow> nat" where
  "rotr n x = (x div 2 ^ n + x * 2 ^ (32 - n)) mod 4294967296"

definition shr :: "nat \<Rightarrow> nat \<Rightarrow> nat" where
  "shr n x = x div 2 ^ n"

definition not32 :: "nat \<Rightarrow> nat" where
  "not32 x = 4294967295 - x"

definition ssig0 :: "nat \<Rightarrow> nat" where
  "ssig0 x = rotr 7 x XOR rotr 18 x XOR shr 3 x"

definition ssig1 :: "nat \<Rightarrow> nat" where
  "ssig1 x = rotr 17 x XOR rotr 19 x XOR shr 10 x"

definition bsig0 :: "nat \<Rightarrow> nat" where
  "bsig0 x = rotr 2 x XOR rotr 13 x XOR rotr 22 x"

definition bsig1 :: "nat \<Rightarrow> nat" where
  "bsig1 x = rotr 6 x XOR rotr 11 x XOR rotr 25 x"

definition ch :: "nat \<Rightarrow> nat \<Rightarrow> nat \<Rightarrow> nat" where
  "ch e f g = (e AND f) XOR (not32 e AND g)"

definition maj :: "nat \<Rightarrow> nat \<Rightarrow> nat \<Rightarrow> nat" where
  "maj a b c = (a AND b) XOR (a AND c) XOR (b AND c)"

definition K256 :: "nat list" where
  "K256 = [
  1116352408, 1899447441, 3049323471, 3921009573, 961987163, 1508970993, 2453635748, 2870763221,
  3624381080, 310598401, 607225278, 1426881987, 1925078388, 2162078206, 2614888103, 3248222580,
  3835390401, 4022224774, 264347078, 604807628, 770255983, 1249150122, 1555081692, 1996064986,
  2554220882, 2821834349, 2952996808, 3210313671, 3336571891, 3584528711, 113926993, 338241895,
  666307205, 773529912, 1294757372, 1396182291, 1695183700, 1986661051, 2177026350, 2456956037,
  2730485921, 2820302411, 3259730800, 3345764771, 3516065817, 3600352804, 4094571909, 275423344,
  430227734, 506948616, 659060556, 883997877, 958139571, 1322822218, 1537002063, 1747873779,
  1955562222, 2024104815, 2227730452, 2361852424, 2428436474, 2756734187, 3204031479, 3329325298]"

definition init256 :: digest where
  "init256 = (1779033703, 3144134277, 1013904242, 2773480762,
              1359893119, 2600822924, 528734635, 1541459225)"

fun T1 :: "nat \<Rightarrow> nat \<Rightarrow> digest \<Rightarrow> nat" where
  "T1 k wt (a, b, c, d, e, f, g, h) =
     add32 (add32 (add32 (add32 h (bsig1 e)) (ch e f g)) k) wt"

fun T2 :: "digest \<Rightarrow> nat" where
  "T2 (a, b, c, d, e, f, g, h) = add32 (bsig0 a) (maj a b c)"

fun sha_step :: "nat \<Rightarrow> nat \<Rightarrow> digest \<Rightarrow> digest" where
  "sha_step t1 t2 (a, b, c, d, e, f, g, h) = (add32 t1 t2, a, b, c, add32 d t1, e, f, g)"

text \<open>
  The message schedule is kept as a window of the sixteen latest words: the head is
  \<open>W\<^sub>t\<close>, and the word sixteen places later is appended for the rounds to come.
\<close>

definition next_w :: "nat list \<Rightarrow> nat list" where
  "next_w w = tl w @ [add32 (add32 (add32 (ssig1 (w ! 14)) (w ! 9)) (ssig0 (w ! 1))) (w ! 0)]"

primrec rounds :: "nat list \<Rightarrow> nat list \<Rightarrow> digest \<Rightarrow> digest" where
  "rounds [] w s = s"
| "rounds (k # ks) w s = rounds ks (next_w w) (sha_step (T1 k (hd w) s) (T2 s) s)"

fun add_digest :: "digest \<Rightarrow> digest \<Rightarrow> digest" where
  "add_digest (a, b, c, d, e, f, g, h) (a', b', c', d', e', f', g', h') =
     (add32 a a', add32 b b', add32 c c', add32 d d',
      add32 e e', add32 f f', add32 g g', add32 h h')"

definition sha_block :: "digest \<Rightarrow> nat list \<Rightarrow> digest" where
  "sha_block s blk = add_digest s (rounds K256 blk s)"

text \<open>Padding: the byte \<open>0x80\<close>, zeros up to 56 modulo 64, the bit length in 8 bytes.\<close>

definition be_bytes :: "nat \<Rightarrow> nat \<Rightarrow> nat list" where
  "be_bytes n x = map (\<lambda>i. (x div 256 ^ (n - 1 - i)) mod 256) [0..<n]"

definition pad :: "nat list \<Rightarrow> nat list" where
  "pad m = m @ [128] @ replicate ((119 - length m mod 64) mod 64) 0
             @ be_bytes 8 ((8 * length m) mod 18446744073709551616)"

fun be_words :: "nat list \<Rightarrow> nat list" where
  "be_words (a # b # c # d # bs) = (((a * 256 + b) * 256 + c) * 256 + d) # be_words bs"
| "be_words _ = []"

fun chunks16 :: "nat list \<Rightarrow> nat list list" where
  "chunks16 ws = (if ws = [] then [] else take 16 ws # chunks16 (drop 16 ws))"

declare chunks16.simps [simp del]

fun digest_bytes :: "digest \<Rightarrow> nat list" where
  "digest_bytes (a, b, c, d, e, f, g, h) = concat (map (be_bytes 4) [a, b, c, d, e, f, g, h])"

definition Sum256 :: "nat list \<Rightarrow> nat list" where
  "Sum256 m = digest_bytes (foldl sha_block init256 (chunks16 (be_words (pad m))))"

text \<open>\<open>[]byte(s)\<close>, and \<open>fmt.Sprintf("%x", b)\<close> for a byte array: two lowercase hexadecimal
  digits for each byte.\<close>

definition bytes_of :: "string \<Rightarrow> nat list" where
  "bytes_of s = map of_char s"

definition Sprintf_x :: "nat list \<Rightarrow> string" where
  "Sprintf_x bs = concat (map (\<lambda>b. [digit_char (b div 16), digit_char (b mod 16)]) bs)"

section \<open>The mutator chain\<close>

text \<open>
  A channel of events between two stages is the sequence of events that flows through
  it. Each stage of \<open>leash.go\<close> is a goroutine that ranges over its input channel,
  changes the event and hands it on, so a stage maps its per-event body over the
  sequence. The bodies are the \<open>_ev\<close> functions.
\<close>

definition dropEventField_ev :: "string \<Rightarrow> 'x event \<Rightarrow> 'x event" where
  "dropEventField_ev field ev = ev\<lparr>Data := (Data ev)(field := None)\<rparr>"

definition dropEventField :: "string \<Rightarrow> 'x event list \<Rightarrow> 'x event list" where
  "dropEventField field toBeSent = map (dropEventField_ev field) toBeSent"

definition scrubEventField_ev :: "('x \<Rightarrow> string) \<Rightarrow> string \<Rightarrow> 'x event \<Rightarrow> 'x event" where
  "scrubEventField_ev fmt field ev =
     (case Data ev field of
        Some val \<Rightarrow>
          ev\<lparr>Data := (Data ev)(field \<mapsto>
                 VString (Sprintf_x (Sum256 (bytes_of (Sprintf_v fmt val)))))\<rparr>
      | None \<Rightarrow> ev)"

definition scrubEventField :: "('x \<Rightarrow> string) \<Rightarrow> string \<Rightarrow> 'x event list \<Rightarrow> 'x event list" where
  "scrubEventField fmt field toBeSent = map (scrubEventField_ev fmt field) toBeSent"

text \<open>\<open>strings.SplitN(field, "=", 2)\<close>: the whole string when it has no \<open>=\<close>, else the
  part before the first \<open>=\<close> and the part after it.\<close>

definition SplitN_eq_2 :: "string \<Rightarrow> string list" where
  "SplitN_eq_2 s =
     (case dropWhile (\<lambda>c. c \<noteq> CHR ''='') s of
        [] \<Rightarrow> [s]
      | _ # rest \<Rightarrow> [takeWhile (\<lambda>c. c \<noteq> CHR ''='') s, rest])"

definition addEventField_ev :: "string \<Rightarrow> string \<Rightarrow> 'x event \<Rightarrow> 'x event" where
  "addEventField_ev key val ev = ev\<lparr>Data := (Data ev)(key \<mapsto> VString val)\<rparr>"

definition addEventField :: "string \<Rightarrow> 'x event list \<Rightarrow> failure + 'x event list" where
  "addEventField field toBeSent =
     (let splitField = SplitN_eq_2 field
      in if length splitField \<noteq> 2
         then Inl (Fatal ''unable to separate provided field into a key=val pair'')
         else Inr (map (addEventField_ev (splitField ! 0) (splitField ! 1)) toBeSent))"

text \<open>
  Modelled from the spec: the struct \<open>GlobalOptions\<close> is declared outside the sources at
  hand; these are the fields \<open>leash.go\<close> reads. \<open>NumSenders\<close> is assigned to libhoney's
  \<open>MaxConcurrentBatches\<close>, an unsigned machine integer, 64 bits wide here.
\<close>

record required_options =
  ParserName :: string

record global_options =
  Reqs :: required_options
  NumSenders :: "64 word"
  BackOff :: bool
  DropFields :: "string list"
  ScrubFields :: "string list"
  AddFields :: "string list"

text \<open>The three loops of \<open>modifyEventContents\<close>, each wrapping the channel in one more stage.
  The third stops the program at the first malformed \<open>add_field\<close>.\<close>

fun add_stages :: "string list \<Rightarrow> 'x event list \<Rightarrow> failure + 'x event list" where
  "add_stages [] toBeSent = Inr toBeSent"
| "add_stages (field # rest) toBeSent =
     (case addEventField field toBeSent of
        Inl e \<Rightarrow> Inl e
      | Inr newSent \<Rightarrow> add_stages rest newSent)"

definition modifyEventContents ::
  "('x \<Rightarrow> string) \<Rightarrow> 'x event list \<Rightarrow> global_options \<Rightarrow> failure + 'x event list" where
  "modifyEventContents fmt toBeSent options =
     (let dropped = foldl (\<lambda>ch field. dropEventField field ch) toBeSent (DropFields options);
          scrubbed = foldl (\<lambda>ch field. scrubEventField fmt field ch) dropped (ScrubFields options)
      in add_stages (AddFields options) scrubbed)"

text \<open>
  The chain as the specification words it: on each event, all drop mutators, then all
  scrub mutators, then all add mutators, each list from left to right.
\<close>

definition add_pair :: "string \<Rightarrow> string \<times> string" where
  "add_pair field =
     (takeWhile (\<lambda>c. c \<noteq> CHR ''='') field, tl (dropWhile (\<lambda>c. c \<noteq> CHR ''='') field))"

definition chain_spec ::
  "('x \<Rightarrow> string) \<Rightarrow> string list \<Rightarrow> string list \<Rightarrow> string list \<Rightarrow> 'x event \<Rightarrow> 'x event" where
  "chain_spec fmt drops scrubs adds ev =
     fold (\<lambda>field. addEventField_ev (fst (add_pair field)) (snd (add_pair field))) adds
       (fold (scrubEventField_ev fmt) scrubs
          (fold dropEventField_ev drops ev))"

section \<open>Parser selection\<close>

text \<open>
  The parser values \<open>&nginx.Parser{}\<close>, \<open>&htjson.Parser{}\<close>, \<open>&mongodb.Parser{}\<close> and
  \<open>&mysql.Parser{}\<close>, and the option groups \<open>&options.Nginx\<close>, \<open>&options.JSON\<close>,
  \<open>&options.Mongo\<close> and \<open>&options.MySQL\<close>. The nil interface is \<open>None\<close>.
\<close>

datatype parser = NginxParser | JSONParser | MongoParser | MySQLParser

datatype parser_options = NginxOptions | JSONOptions | MongoOptions | MySQLOptions

definition getParserAndOptions :: "global_options \<Rightarrow> parser option \<times> parser_options option" where
  "getParserAndOptions options =
     (let name = ParserName (Reqs options)
      in if name = ''nginx'' then (Some NginxParser, Some NginxOptions)
         else if name = ''json'' then (Some JSONParser, Some JSONOptions)
         else if name = ''mongo'' \<or> name = ''mongodb'' then (Some MongoParser, Some MongoOptions)
         else if name = ''mysql'' then (Some MySQLParser, Some MySQLOptions)
         else (None, None))"

text \<open>The part of \<open>run\<close> that gets the parser: a nil parser is fatal, otherwise
  start-up goes on to \<open>parser.Init(opts)\<close> with the pair.\<close>

definition run_get_parser :: "global_options \<Rightarrow> failure + parser \<times> parser_options option" where
  "run_get_parser options =
     (case getParserAndOptions options of
        (None, opts) \<Rightarrow> Inl (Fatal ''Parser not found. Use --list to show valid parsers'')
      | (Some parser, opts) \<Rightarrow> Inr (parser, opts))"

definition options_for :: "string \<Rightarrow> global_options" where
  "options_for name =
     \<lparr>Reqs = \<lparr>ParserName = name\<rparr>, NumSenders = 80, BackOff = True,
      DropFields = [], ScrubFields = [], AddFields = []\<rparr>"

section \<open>Channels\<close>

text \<open>
  A Go channel as the run-time keeps it: the buffered values, oldest first, the capacity
  given to \<open>make\<close>, the values of the goroutines parked in a send (a send parks when
  the buffer is full, and an unbuffered channel has capacity 0), and whether the channel
  has been closed.
\<close>

record 'a chan =
  buf :: "'a list"
  cap :: nat
  sendq :: "'a list"
  closed :: bool

definition make_chan :: "nat \<Rightarrow> 'a chan" where
  "make_chan n = \<lparr>buf = [], cap = n, sendq = [], closed = False\<rparr>"

text \<open>\<open>c <- x\<close>: the value is buffered when there is room; otherwise the sender parks
  with it, and goes on only when a receiver has taken it out of \<open>sendq\<close>.\<close>

definition chan_send :: "'a \<Rightarrow> 'a chan \<Rightarrow> 'a chan" where
  "chan_send x c =
     (if length (buf c) < cap c then c\<lparr>buf := buf c @ [x]\<rparr> else c\<lparr>sendq := sendq c @ [x]\<rparr>)"

text \<open>
  A receive in a \<open>select\<close> with a \<open>default\<close> branch. A closed and drained channel
  answers at once, with \<open>ok\<close> false. With a parked sender the receiver takes the oldest
  buffered value and the sender's value moves into the buffer, or, without a buffer, the
  receiver takes the sender's value directly. With nothing to take, \<open>default\<close> runs.
\<close>

datatype 'a received = Value 'a "'a chan" | ChanClosed | Default

definition chan_recv_nb :: "'a chan \<Rightarrow> 'a received" where
  "chan_recv_nb c =
     (if closed c \<and> buf c = [] then ChanClosed
      else case buf c of
        x # xs \<Rightarrow>
          (case sendq c of
             [] \<Rightarrow> Value x (c\<lparr>buf := xs\<rparr>)
           | y # ys \<Rightarrow> Value x (c\<lparr>buf := xs @ [y], sendq := ys\<rparr>))
      | [] \<Rightarrow>
          (case sendq c of
             [] \<Rightarrow> Default
           | y # ys \<Rightarrow> Value y (c\<lparr>sendq := ys\<rparr>)))"

section \<open>Sender and response handler\<close>

text \<open>
  The event handed to libhoney by \<open>sendEvent\<close>, and the response libhoney gives back.
  The \<open>Metadata\<close> slot is an \<open>interface{}\<close>: nil, an \<open>event.Event\<close>, or a value of
  another dynamic type. An \<open>int\<close> and a \<open>time.Duration\<close> are 64-bit machine integers,
  read as signed by \<open>sint\<close>.
\<close>

datatype 'x metadata = NoMetadata | EventMetadata "'x event" | OtherMetadata

record 'x libhoney_event =
  libhMetadata :: "'x metadata"
  libhTimestamp :: int
  libhFields :: "string \<rightharpoonup> 'x val"

record 'x response =
  StatusCode :: int
  Body :: string
  Duration :: "64 word"
  Err :: "string option"
  Metadata :: "'x metadata"

definition Millisecond :: "64 word" where
  "Millisecond = 1000000"

text \<open>What the sender does to the world outside, in order: \<open>time.Sleep\<close>, the hand-over
  of an event to libhoney, and the done signal.\<close>

datatype 'x effect = Sleep "64 word" | LibhoneySend "'x libhoney_event" | DoneSending

text \<open>The debug line of the handler; of its fields, \<open>body\<close> and \<open>duration\<close> are copies
  of the response and are left out.\<close>

record logfields =
  status_code :: int
  error :: "string option"
  timestamp :: int
  retry_send :: bool

datatype 'x send = ToDelaySending "64 word" | ToToBeResent "'x event"

datatype sender_pc = AtDelay | AtResent | AtPrimary | Returned

datatype 'x handler_pc =
  Ranging
  | Sending "'x send list" logfields
  | Parked "'x send list" logfields
  | Panicked

text \<open>
  The state shared by the goroutines \<open>sendToLibhoney\<close> and \<open>handleResponses\<close>: the
  three channels (\<open>toBeSent\<close> is the output of the mutator chain), what the sender has
  done so far, the debug lines written, and where each goroutine stands.
\<close>

record 'x state =
  toBeSent :: "'x event chan"
  toBeResent :: "'x event chan"
  delaySending :: "64 word chan"
  effects :: "'x effect list"
  logged :: "logfields list"
  sender :: sender_pc
  handler :: "'x handler_pc"

definition sendEvent :: "'x event \<Rightarrow> 'x state \<Rightarrow> 'x state" where
  "sendEvent ev s =
     s\<lparr>effects := effects s @
          [LibhoneySend \<lparr>libhMetadata = EventMetadata ev, libhTimestamp = Timestamp ev,
                         libhFields = Data ev\<rparr>]\<rparr>"

text \<open>The zero value a receive from a closed channel yields.\<close>

definition zero_event :: "'x event" where
  "zero_event = \<lparr>Timestamp = 0, Data = Map.empty\<rparr>"

text \<open>The three \<open>select\<close> statements of the loop of \<open>sendToLibhoney\<close>, each with the
  program point it leads to; the idle sleep belongs to the \<open>default\<close> of the third.\<close>

definition select_delay :: "'x state \<Rightarrow> 'x state" where
  "select_delay s =
     (case chan_recv_nb (delaySending s) of
        Value delay c \<Rightarrow>
          s\<lparr>delaySending := c, effects := effects s @ [Sleep (delay * Millisecond)]\<rparr>
      | ChanClosed \<Rightarrow> s\<lparr>effects := effects s @ [Sleep (0 * Millisecond)]\<rparr>
      | Default \<Rightarrow> s)"

definition select_resent :: "'x state \<Rightarrow> sender_pc \<times> 'x state" where
  "select_resent s =
     (case chan_recv_nb (toBeResent s) of
        Value ev c \<Rightarrow> (AtDelay, sendEvent ev (s\<lparr>toBeResent := c\<rparr>))
      | ChanClosed \<Rightarrow> (AtDelay, sendEvent zero_event s)
      | Default \<Rightarrow> (AtPrimary, s))"

definition select_primary :: "'x state \<Rightarrow> sender_pc \<times> 'x state" where
  "select_primary s =
     (case chan_recv_nb (toBeSent s) of
        Value ev c \<Rightarrow> (AtDelay, sendEvent ev (s\<lparr>toBeSent := c\<rparr>))
      | ChanClosed \<Rightarrow> (Returned, s\<lparr>effects := effects s @ [DoneSending]\<rparr>)
      | Default \<Rightarrow> (AtDelay, s\<lparr>effects := effects s @ [Sleep (100 * Millisecond)]\<rparr>))"

text \<open>One iteration of the loop, when no other goroutine runs in between: the program
  point reached (\<open>AtDelay\<close> for the next iteration, \<open>Returned\<close>) and the state.\<close>

definition sender_iteration :: "'x state \<Rightarrow> sender_pc \<times> 'x state" where
  "sender_iteration s =
     (case select_resent (select_delay s) of
        (AtPrimary, s') \<Rightarrow> select_primary s'
      | (pc, s') \<Rightarrow> (pc, s'))"

text \<open>
  The body of the loop of \<open>handleResponses\<close> up to its channel sends: building the log
  fields asserts that the metadata is an \<open>event.Event\<close>, which panics on anything else;
  then the retry decision. The result is the sends to make, in order, and the debug
  line to write after them.
\<close>

definition handleResponse :: "global_options \<Rightarrow> 'x response \<Rightarrow> failure + 'x send list \<times> logfields" where
  "handleResponse options rsp =
     (case Metadata rsp of
        EventMetadata ev \<Rightarrow>
          (let logfields = \<lparr>status_code = StatusCode rsp, error = Err rsp,
                             timestamp = Timestamp ev, retry_send = False\<rparr>
           in if BackOff options \<and> (StatusCode rsp = 429 \<or> StatusCode rsp = 500)
              then Inr ([ToDelaySending 100, ToToBeResent ev], logfields\<lparr>retry_send := True\<rparr>)
              else Inr ([], logfields))
      | _ \<Rightarrow> Inl (Panic ''interface conversion: interface {} is not event.Event''))"

text \<open>A send of the handler, and whether the channel it goes to still holds a parked
  value (the handler is the only sender on both channels).\<close>

fun handler_send :: "'x send \<Rightarrow> 'x state \<Rightarrow> 'x state" where
  "handler_send (ToDelaySending d) s = s\<lparr>delaySending := chan_send d (delaySending s)\<rparr>"
| "handler_send (ToToBeResent ev) s = s\<lparr>toBeResent := chan_send ev (toBeResent s)\<rparr>"

fun send_parked :: "'x send \<Rightarrow> 'x state \<Rightarrow> bool" where
  "send_parked (ToDelaySending d) s = (sendq (delaySending s) \<noteq> [])"
| "send_parked (ToToBeResent ev) s = (sendq (toBeResent s) \<noteq> [])"

text \<open>
  The channels \<open>run\<close> creates. The run-time refuses a channel whose buffer it cannot
  allocate; \<open>maxchan\<close> is the largest capacity it grants.
\<close>

definition run_channels :: "nat \<Rightarrow> global_options \<Rightarrow> failure + 'x state" where
  "run_channels maxchan options =
     (if maxchan < unat (2 * NumSenders options)
      then Inl (Panic ''makechan: size out of range'')
      else Inr \<lparr>toBeSent = make_chan 0,
                toBeResent = make_chan (unat (2 * NumSenders options)),
                delaySending = make_chan (unat (2 * NumSenders options)),
                effects = [], logged = [], sender = AtDelay, handler = Ranging\<rparr>)"

text \<open>
  The goroutines interleaved, one channel operation at a time. The handler takes a
  response, makes its sends (parking on a full channel until the sender has taken the
  value) and writes its debug line; a panic of the handler ends the program. The
  sender runs its three selects in turn. The mutator chain offers an event on
  \<open>toBeSent\<close> or closes it.
\<close>

inductive step :: "global_options \<Rightarrow> 'x state \<Rightarrow> 'x state \<Rightarrow> bool" for options where
  response:
    "handler s = Ranging \<Longrightarrow> handleResponse options rsp = Inr (sends, lf) \<Longrightarrow>
     step options s (s\<lparr>handler := Sending sends lf\<rparr>)"
| panic:
    "handler s = Ranging \<Longrightarrow> handleResponse options (rsp :: 'x response) = Inl f \<Longrightarrow>
     step options s (s\<lparr>handler := Panicked\<rparr>)"
| send:
    "handler s = Sending (x # sends) lf \<Longrightarrow> s' = handler_send x s \<Longrightarrow>
     step options s
       (s'\<lparr>handler := (if send_parked x s' then Parked (x # sends) lf else Sending sends lf)\<rparr>)"
| wake:
    "handler s = Parked (x # sends) lf \<Longrightarrow> \<not> send_parked x s \<Longrightarrow>
     step options s (s\<lparr>handler := Sending sends lf\<rparr>)"
| log:
    "handler s = Sending [] lf \<Longrightarrow>
     step options s (s\<lparr>logged := logged s @ [lf], handler := Ranging\<rparr>)"
| delay:
    "handler s \<noteq> Panicked \<Longrightarrow> sender s = AtDelay \<Longrightarrow>
     step options s ((select_delay s)\<lparr>sender := AtResent\<rparr>)"
| resent:
    "handler s \<noteq> Panicked \<Longrightarrow> sender s = AtResent \<Longrightarrow> select_resent s = (pc, s') \<Longrightarrow>
     step options s (s'\<lparr>sender := pc\<rparr>)"
| primary:
    "handler s \<noteq> Panicked \<Longrightarrow> sender s = AtPrimary \<Longrightarrow> select_primary s = (pc, s') \<Longrightarrow>
     step options s (s'\<lparr>sender := pc\<rparr>)"
| offer:
    "handler s \<noteq> Panicked \<Longrightarrow> \<not> closed (toBeSent s) \<Longrightarrow> sendq (toBeSent s) = [] \<Longrightarrow>
     step options s (s\<lparr>toBeSent := chan_send ev (toBeSent s)\<rparr>)"
| close:
    "handler s \<noteq> Panicked \<Longrightarrow> \<not> closed (toBeSent s) \<Longrightarrow> sendq (toBeSent s) = [] \<Longrightarrow>
     step options s (s\<lparr>toBeSent := (toBeSent s)\<lparr>closed := True\<rparr>\<rparr>)"

inductive reachable :: "nat \<Rightarrow> global_options \<Rightarrow> 'x state \<Rightarrow> bool" for maxchan options where
  started: "run_channels maxchan options = Inr s \<Longrightarrow> reachable maxchan options s"
| stepped: "reachable maxchan options s \<Longrightarrow> step options s s' \<Longrightarrow> reachable maxchan options s'"

definition example_event :: "unit event" where
  "example_event =
     \<lparr>Timestamp = 1510013116,
      Data = [''email'' \<mapsto> VString ''a@b'', ''pid'' \<mapsto> VInt 3053, ''note'' \<mapsto> VBool True]\<rparr>"

definition example_options :: global_options where
  "example_options =
     \<lparr>Reqs = \<lparr>ParserName = ''nginx''\<rparr>, NumSenders = 80, BackOff = True,
      DropFields = [''note'', ''pid''], ScrubFields = [], AddFields = [''note=k=v'']\<rparr>"

(*PROPERTIES*)
section \<open>Properties of the mutators\<close>

lemma takeWhile_key:
  "CHR ''='' \<notin> set k \<Longrightarrow> takeWhile (\<lambda>c. c \<noteq> CHR ''='') (k @ CHR ''='' # v) = k"
  by (induction k) auto

lemma dropWhile_key:
  "CHR ''='' \<notin> set k \<Longrightarrow>
   dropWhile (\<lambda>c. c \<noteq> CHR ''='') (k @ CHR ''='' # v) = CHR ''='' # v"
  by (induction k) auto

lemma SplitN_first: "CHR ''='' \<notin> set k \<Longrightarrow> SplitN_eq_2 (k @ CHR ''='' # v) = [k, v]"
  by (simp add: SplitN_eq_2_def takeWhile_key dropWhile_key)

lemma SplitN_none:
  assumes "CHR ''='' \<notin> set s"
  shows "SplitN_eq_2 s = [s]"
proof -
  have none: "dropWhile (\<lambda>c. c \<noteq> CHR ''='') s = []"
    using assms by auto
  show ?thesis
    unfolding SplitN_eq_2_def none by simp
qed

lemma SplitN_parts:
  assumes "CHR ''='' \<in> set s"
  shows "SplitN_eq_2 s = [fst (add_pair s), snd (add_pair s)]"
proof (cases "dropWhile (\<lambda>c. c \<noteq> CHR ''='') s")
  case Nil
  then have "\<forall>c \<in> set s. c \<noteq> CHR ''=''"
    by simp
  with assms show ?thesis
    by blast
next
  case (Cons c rest)
  then show ?thesis
    by (simp add: SplitN_eq_2_def add_pair_def)
qed

lemma addEventField_ok:
  "CHR ''='' \<in> set field \<Longrightarrow>
   addEventField field evs =
     Inr (map (addEventField_ev (fst (add_pair field)) (snd (add_pair field))) evs)"
  by (simp add: addEventField_def SplitN_parts Let_def)

lemma addEventField_fatal:
  "CHR ''='' \<notin> set field \<Longrightarrow> \<exists>msg. addEventField field evs = Inl (Fatal msg)"
  by (simp add: addEventField_def SplitN_none Let_def)

lemma addEventField_key_value:
  "CHR ''='' \<notin> set k \<Longrightarrow>
   addEventField (k @ CHR ''='' # v) evs =
     Inr (map (\<lambda>ev. ev\<lparr>Data := (Data ev)(k \<mapsto> VString v)\<rparr>) evs)"
  by (simp add: addEventField_def SplitN_first Let_def addEventField_ev_def)

text \<open>
  C7. The add mutator splits its specification at the first \<open>=\<close> only: for a key \<open>k\<close>
  without \<open>=\<close> and any value \<open>v\<close> (which may contain \<open>=\<close>), the stage built from
  \<open>k=v\<close> sets \<open>data[k]\<close> of every event to the string \<open>v\<close>, whatever was stored under
  \<open>k\<close> before; the specification \<open>note=k=v\<close> sets \<open>data.note\<close> to \<open>k=v\<close>.
\<close>

theorem add_splits_on_first_eq:
  "(CHR ''='' \<notin> set k \<longrightarrow>
      addEventField (k @ CHR ''='' # v) evs =
        Inr (map (\<lambda>ev. ev\<lparr>Data := (Data ev)(k \<mapsto> VString v)\<rparr>) evs))
   \<and> addEventField ''note=k=v'' evs =
        Inr (map (\<lambda>ev. ev\<lparr>Data := (Data ev)(''note'' \<mapsto> VString ''k=v'')\<rparr>) evs)"
proof -
  have "addEventField (''note'' @ CHR ''='' # ''k=v'') evs =
          Inr (map (\<lambda>ev. ev\<lparr>Data := (Data ev)(''note'' \<mapsto> VString ''k=v'')\<rparr>) evs)"
    by (rule addEventField_key_value) simp
  then show ?thesis
    by (simp add: addEventField_key_value)
qed

theorem add_splits_on_first_eq_witness:
  "CHR ''='' \<notin> set ''pid''
   \<and> addEventField ''pid=a=b'' [example_event] =
       Inr [example_event\<lparr>Data := (Data example_event)(''pid'' \<mapsto> VString ''a=b'')\<rparr>]"
  using add_splits_on_first_eq [of "''pid''" "''a=b''" "[example_event]"] by simp

text \<open>
  C9. Each mutator touches only its target key: the bodies of drop and scrub for field
  \<open>f\<close> and of add for key \<open>f\<close> keep the timestamp and every entry under a key other than
  \<open>f\<close>, and scrub leaves an event without the key \<open>f\<close> as it is.
\<close>

theorem mutators_touch_only_target:
  "Timestamp (dropEventField_ev f ev) = Timestamp ev
   \<and> (k \<noteq> f \<longrightarrow> Data (dropEventField_ev f ev) k = Data ev k)
   \<and> Timestamp (scrubEventField_ev fmt f ev) = Timestamp ev
   \<and> (k \<noteq> f \<longrightarrow> Data (scrubEventField_ev fmt f ev) k = Data ev k)
   \<and> (Data ev f = None \<longrightarrow> scrubEventField_ev fmt f ev = ev)
   \<and> Timestamp (addEventField_ev f v ev) = Timestamp ev
   \<and> (k \<noteq> f \<longrightarrow> Data (addEventField_ev f v ev) k = Data ev k)"
  by (simp add: dropEventField_ev_def scrubEventField_ev_def addEventField_ev_def
      split: option.splits)

theorem mutators_touch_only_target_witness:
  "''email'' \<noteq> ''pid''
   \<and> Data example_event ''host'' = None
   \<and> Data (dropEventField_ev ''pid'' example_event) ''email'' = Data example_event ''email''
   \<and> Data (scrubEventField_ev (\<lambda>u. []) ''pid'' example_event) ''email''
       = Data example_event ''email''
   \<and> scrubEventField_ev (\<lambda>u. []) ''host'' example_event = example_event
   \<and> Data (addEventField_ev ''pid'' ''7'' example_event) ''email'' = Data example_event ''email''"
  using mutators_touch_only_target
          [of "''pid''" example_event "''email''" "\<lambda>u. []" "''7''"]
        mutators_touch_only_target
          [of "''host''" example_event "''email''" "\<lambda>u. []" "''7''"]
  by (simp add: example_event_def)

lemma drop_stages_map:
  "foldl (\<lambda>ch field. dropEventField field ch) evs fs = map (fold dropEventField_ev fs) evs"
  by (induction fs arbitrary: evs) (simp_all add: dropEventField_def)

lemma scrub_stages_map:
  "foldl (\<lambda>ch field. scrubEventField fmt field ch) evs fs =
     map (fold (scrubEventField_ev fmt) fs) evs"
  by (induction fs arbitrary: evs) (simp_all add: scrubEventField_def)

lemma add_stages_map:
  "\<forall>field \<in> set fs. CHR ''='' \<in> set field \<Longrightarrow>
   add_stages fs evs =
     Inr (map (fold (\<lambda>field. addEventField_ev (fst (add_pair field)) (snd (add_pair field))) fs)
            evs)"
  by (induction fs arbitrary: evs) (simp_all add: addEventField_ok)

lemma add_stages_fatal:
  "\<exists>field \<in> set fs. CHR ''='' \<notin> set field \<Longrightarrow> \<exists>msg. add_stages fs evs = Inl (Fatal msg)"
proof (induction fs arbitrary: evs)
  case Nil
  then show ?case by simp
next
  case (Cons f fs)
  show ?case
  proof (cases "CHR ''='' \<in> set f")
    case True
    with Cons.prems have "\<exists>field \<in> set fs. CHR ''='' \<notin> set field"
      by auto
    from Cons.IH [OF this] True show ?thesis
      by (simp add: addEventField_ok)
  next
    case False
    from addEventField_fatal [OF False] obtain msg where "addEventField f evs = Inl (Fatal msg)"
      by blast
    then show ?thesis by simp
  qed
qed

text \<open>
  C5. The chain built by \<open>modifyEventContents\<close> applies, to every event and in the order
  of the stream, all configured drop mutators, then all scrub mutators, then all add
  mutators: its output is \<open>chain_spec\<close> mapped over its input. This is so for every
  configuration in which each \<open>add_field\<close> has an \<open>=\<close>; with a malformed \<open>add_field\<close>
  no chain is built, the program stops with a fatal error.
\<close>

theorem chain_order_drop_scrub_add:
  "((\<forall>field \<in> set (AddFields options). CHR ''='' \<in> set field) \<longrightarrow>
      modifyEventContents fmt evs options =
        Inr (map (chain_spec fmt (DropFields options) (ScrubFields options) (AddFields options))
               evs))
   \<and> ((\<exists>field \<in> set (AddFields options). CHR ''='' \<notin> set field) \<longrightarrow>
        (\<exists>msg. modifyEventContents fmt evs options = Inl (Fatal msg)))"
  by (simp add: modifyEventContents_def Let_def drop_stages_map scrub_stages_map
      add_stages_map add_stages_fatal chain_spec_def)

theorem chain_order_drop_scrub_add_witness:
  "AddFields example_options = [''note=k=v'']
   \<and> CHR ''='' \<in> set ''note=k=v''
   \<and> modifyEventContents (\<lambda>u. []) [example_event] example_options =
       Inr [\<lparr>Timestamp = 1510013116,
             Data = [''email'' \<mapsto> VString ''a@b'', ''note'' \<mapsto> VString ''k=v'']\<rparr>]
   \<and> (\<exists>field \<in> set (AddFields (example_options\<lparr>AddFields := [''note'']\<rparr>)).
         CHR ''='' \<notin> set field)
   \<and> (\<exists>msg. modifyEventContents (\<lambda>u. []) [example_event]
                (example_options\<lparr>AddFields := [''note'']\<rparr>) = Inl (Fatal msg))"
  using chain_order_drop_scrub_add [of example_options "\<lambda>u. []" "[example_event]"]
        chain_order_drop_scrub_add
          [of "example_options\<lparr>AddFields := [''note'']\<rparr>" "\<lambda>u. []" "[example_event]"]
  by (auto simp add: example_options_def example_event_def chain_spec_def add_pair_def
      dropEventField_ev_def addEventField_ev_def fun_eq_iff)

section \<open>Properties of parser selection\<close>

text \<open>
  C4, as the spec words it, fails: \<open>mongodb\<close> is none of the five values \<open>nginx\<close>,
  \<open>json\<close>, \<open>mongo\<close>, \<open>mysql\<close>, \<open>postgresql\<close>, and it selects a parser instead of being
  a fatal start-up error.
\<close>

theorem mongodb_not_fatal:
  "''mongodb'' \<notin> {''nginx'', ''json'', ''mongo'', ''mysql'', ''postgresql''}
   \<and> run_get_parser (options_for ''mongodb'') = Inr (MongoParser, Some MongoOptions)"
  by (simp add: run_get_parser_def getParserAndOptions_def options_for_def)

text \<open>
  C4, amended. For each of the values \<open>nginx\<close>, \<open>json\<close>, \<open>mongo\<close>, \<open>mongodb\<close> and
  \<open>mysql\<close>, \<open>getParserAndOptions\<close> returns a parser that is not nil, with its option
  group, and \<open>run\<close> goes on with them; every value other than these five and
  \<open>postgresql\<close> is a fatal start-up error.
\<close>

theorem parser_selection:
  "(ParserName (Reqs options) \<in> {''nginx'', ''json'', ''mongo'', ''mongodb'', ''mysql''} \<longrightarrow>
      (\<exists>parser opts. getParserAndOptions options = (Some parser, Some opts)
                    \<and> run_get_parser options = Inr (parser, Some opts)))
   \<and> (ParserName (Reqs options)
         \<notin> {''nginx'', ''json'', ''mongo'', ''mongodb'', ''mysql'', ''postgresql''} \<longrightarrow>
        (\<exists>msg. run_get_parser options = Inl (Fatal msg)))"
  by (auto simp add: run_get_parser_def getParserAndOptions_def)

theorem parser_selection_witness:
  "ParserName (Reqs (options_for ''mysql''))
     \<in> {''nginx'', ''json'', ''mongo'', ''mongodb'', ''mysql''}
   \<and> (\<exists>parser opts. run_get_parser (options_for ''mysql'') = Inr (parser, Some opts))
   \<and> ParserName (Reqs (options_for ''apache''))
       \<notin> {''nginx'', ''json'', ''mongo'', ''mongodb'', ''mysql'', ''postgresql''}
   \<and> (\<exists>msg. run_get_parser (options_for ''apache'') = Inl (Fatal msg))"
  using parser_selection [of "options_for ''mysql''"] parser_selection [of "options_for ''apache''"]
  by (auto simp add: options_for_def)

text \<open>
  C10. \<open>mongodb\<close> is an alias of \<open>mongo\<close>: whatever the other options are, the two names
  select the same parser, the MongoDB one, and the same option group.
\<close>

theorem mongodb_alias:
  "getParserAndOptions (options\<lparr>Reqs := (Reqs options)\<lparr>ParserName := ''mongodb''\<rparr>\<rparr>) =
     getParserAndOptions (options\<lparr>Reqs := (Reqs options)\<lparr>ParserName := ''mongo''\<rparr>\<rparr>)
   \<and> getParserAndOptions (options\<lparr>Reqs := (Reqs options)\<lparr>ParserName := ''mongo''\<rparr>\<rparr>) =
       (Some MongoParser, Some MongoOptions)"
  by (simp add: getParserAndOptions_def)

theorem mongodb_alias_witness:
  "getParserAndOptions (options_for ''mongodb'') = getParserAndOptions (options_for ''mongo'')
   \<and> getParserAndOptions (options_for ''mongo'') = (Some MongoParser, Some MongoOptions)"
  using mongodb_alias [of "options_for ''nginx''"] by (simp add: options_for_def)

end
